theory Spec2Isabelle
  imports Complex_Main "HOL-Library.AList"
begin

section \<open>JavaScript values as the services see them\<close>

text \<open>
  The services decode every payload to an untyped value (\<open>as any\<close>), so payloads are
  modelled as JSON values with the two JavaScript extras the code observes: the value
  \<open>undefined\<close> (result of reading a missing property) and exceptions. The code
  modelled here never calculates with a number of a payload: it tests it for truth and
  interpolates it into strings. A number is therefore carried as the text that
  \<open>String\<close> gives for it (\<open>240\<close>, \<open>0.1\<close>, \<open>1e+21\<close>, \<open>NaN\<close>), which determines both.
\<close>

datatype json =
    JUndefined
  | JNull
  | JBool bool
  | JNum string
  | JStr string
  | JArr "json list"
  | JObj "(string \<times> json) list"

text \<open>A thrown value: the error class and its message.\<close>

datatype exn =
    Error string
  | TypeError string
  | NatsError string

fun message :: "exn \<Rightarrow> string" where
  "message (Error m) = m"
| "message (TypeError m) = m"
| "message (NatsError m) = m"

text \<open>\<open>if (v)\<close>, \<open>!v\<close>, \<open>a || b\<close>, \<open>a && b\<close>: JavaScript truthiness.\<close>

fun truthy :: "json \<Rightarrow> bool" where
  "truthy JUndefined = False"
| "truthy JNull = False"
| "truthy (JBool b) = b"
| "truthy (JNum n) = (n \<noteq> ''0'' \<and> n \<noteq> ''NaN'')"
| "truthy (JStr s) = (s \<noteq> [])"
| "truthy (JArr xs) = True"
| "truthy (JObj fs) = True"

definition js_or :: "json \<Rightarrow> json \<Rightarrow> json" where
  "js_or a b = (if truthy a then a else b)"

text \<open>
  \<open>v.k\<close>: reading a property of \<open>null\<close> or \<open>undefined\<close> throws a TypeError; a
  missing property, or any property of the names used here on a primitive or an array,
  reads as \<open>undefined\<close>.
\<close>

fun get_prop :: "json \<Rightarrow> string \<Rightarrow> exn + json" where
  "get_prop JUndefined k =
     Inl (TypeError (''Cannot read properties of undefined (reading '' @ [CHR 0x27] @ k
                     @ [CHR 0x27] @ '')''))"
| "get_prop JNull k =
     Inl (TypeError (''Cannot read properties of null (reading '' @ [CHR 0x27] @ k
                     @ [CHR 0x27] @ '')''))"
| "get_prop (JObj fs) k = Inr (case map_of fs k of None \<Rightarrow> JUndefined | Some v \<Rightarrow> v)"
| "get_prop v k = Inr JUndefined"

text \<open>\<open>v?.k\<close>: optional chaining never throws.\<close>

definition opt_prop :: "json \<Rightarrow> string \<Rightarrow> json" where
  "opt_prop v k = (case get_prop v k of Inl e \<Rightarrow> JUndefined | Inr x \<Rightarrow> x)"

fun join_comma :: "string list \<Rightarrow> string" where
  "join_comma [] = []"
| "join_comma [s] = s"
| "join_comma (s # t # ss) = s @ '','' @ join_comma (t # ss)"

text \<open>\<open>String(v)\<close>, the conversion a template string \<open>`...${v}`\<close> and \<open>new Error(v)\<close> apply.\<close>

fun js_String :: "json \<Rightarrow> string" where
  "js_String JUndefined = ''undefined''"
| "js_String JNull = ''null''"
| "js_String (JBool b) = (if b then ''true'' else ''false'')"
| "js_String (JNum n) = n"
| "js_String (JStr s) = s"
| "js_String (JArr xs) =
     join_comma (map (\<lambda>x. if x = JNull \<or> x = JUndefined then [] else js_String x) xs)"
| "js_String (JObj fs) = ''[object Object]''"

text \<open>\<open>{...o, k: v}\<close>: the object with field \<open>k\<close> set, in place if \<open>o\<close> has it.\<close>

fun set_field :: "string \<Rightarrow> json \<Rightarrow> json \<Rightarrow> json" where
  "set_field k v (JObj fs) = JObj (AList.update k v fs)"
| "set_field k v other = JObj [(k, v)]"

section \<open>The message bus client\<close>

text \<open>
  A payload on the wire is a byte string; what the services do with it depends only on
  whether \<open>jsonCodec.decode\<close> succeeds and on the decoded value, so a payload is
  either the encoding of a value or malformed bytes.
\<close>

datatype wire = Encoded json | Malformed string

definition jsonCodec_encode :: "json \<Rightarrow> wire" where
  "jsonCodec_encode v = Encoded v"

fun jsonCodec_decode :: "wire \<Rightarrow> exn + json" where
  "jsonCodec_decode (Encoded v) = Inr v"
| "jsonCodec_decode (Malformed raw) = Inl (NatsError ''BAD_JSON'')"

record msg =
  subject :: string
  data :: wire
  reply :: "string option"

text \<open>\<open>if (msg.reply)\<close>: a reply subject that is present and not the empty string.\<close>

definition has_reply :: "msg \<Rightarrow> bool" where
  "has_reply m = (case reply m of None \<Rightarrow> False | Some r \<Rightarrow> r \<noteq> [])"

definition reply_subject :: "msg \<Rightarrow> string" where
  "reply_subject m = (case reply m of None \<Rightarrow> [] | Some r \<Rightarrow> r)"

text \<open>
  Everything a process does to the outside is appended to a journal, oldest first:
  calls on the bus connection and on subscription handles, writes to the invoices
  table, and the process exit.
\<close>

datatype effect =
    Subscribed nat string
  | Published string wire
  | Unsubscribed nat
  | ConnectionClosed
  | InvoiceUpdated string string
  | Exited nat

text \<open>
  The state of one service process: the connection's table of open subscriptions
  (handle and subject), whether the connection has been closed, the subjects on which
  \<open>publish\<close> throws (for instance a payload over the server's limit) with the error
  thrown, the journal, and the two database tables handleSendInvoice reads. A database
  call fails with \<open>db_error\<close> when that is set.
\<close>

record world =
  subs :: "(nat \<times> string) list"
  next_sid :: nat
  conn_closed :: bool
  publish_errors :: "(string \<times> exn) list"
  journal :: "effect list"
  invoices :: "json list"
  organizations :: "json list"
  db_error :: "string option"

definition nats_subscribe :: "string \<Rightarrow> world \<Rightarrow> nat \<times> world" where
  "nats_subscribe subj w =
     (next_sid w,
      w\<lparr> subs := subs w @ [(next_sid w, subj)],
         next_sid := Suc (next_sid w),
         journal := journal w @ [Subscribed (next_sid w) subj] \<rparr>)"

text \<open>\<open>publish\<close> is fire-and-forget: it throws synchronously or the message is out.\<close>

definition nats_publish :: "string \<Rightarrow> wire \<Rightarrow> world \<Rightarrow> exn + world" where
  "nats_publish subj payload w =
     (if conn_closed w then Inl (NatsError ''CONNECTION_CLOSED'')
      else case map_of (publish_errors w) subj of
             Some e \<Rightarrow> Inl e
           | None \<Rightarrow> Inr (w\<lparr> journal := journal w @ [Published subj payload] \<rparr>))"

text \<open>Unsubscribing a handle that is no longer open changes nothing but is still a call.\<close>

definition unsubscribe :: "nat \<Rightarrow> world \<Rightarrow> world" where
  "unsubscribe sid w =
     w\<lparr> subs := filter (\<lambda>s. fst s \<noteq> sid) (subs w),
        journal := journal w @ [Unsubscribed sid] \<rparr>"

definition nats_close :: "world \<Rightarrow> world" where
  "nats_close w = w\<lparr> subs := [], conn_closed := True, journal := journal w @ [ConnectionClosed] \<rparr>"

text \<open>The messages a process has published, and the subscriptions open on a subject.\<close>

fun published :: "effect list \<Rightarrow> (string \<times> wire) list" where
  "published [] = []"
| "published (Published subj payload # es) = (subj, payload) # published es"
| "published (e # es) = published es"

definition open_on :: "string \<Rightarrow> world \<Rightarrow> nat list" where
  "open_on subj w = map fst (filter (\<lambda>s. snd s = subj) (subs w))"

text \<open>A process that has just connected: nothing subscribed, nothing published.\<close>

definition just_connected :: world where
  "just_connected =
     \<lparr> subs = [], next_sid = 0, conn_closed = False, publish_errors = [], journal = [],
       invoices = [], organizations = [], db_error = None \<rparr>"

section \<open>The request/reply exchanges\<close>

text \<open>
  A JavaScript promise settles at most once: \<open>resolve\<close> and \<open>reject\<close> on a settled
  promise do nothing. An exchange is the promise together with what its closures hold:
  the timer (armed until it fires or is cleared) and the reply subscription's handle.
\<close>

datatype settlement = Pending | Resolved json | Rejected exn

record exchange =
  world :: world
  promise :: settlement
  timer_armed :: bool
  subscription :: nat

definition resolve :: "json \<Rightarrow> exchange \<Rightarrow> exchange" where
  "resolve v x = (if promise x = Pending then x\<lparr> promise := Resolved v \<rparr> else x)"

definition reject :: "exn \<Rightarrow> exchange \<Rightarrow> exchange" where
  "reject e x = (if promise x = Pending then x\<lparr> promise := Rejected e \<rparr> else x)"

definition clearTimeout :: "exchange \<Rightarrow> exchange" where
  "clearTimeout x = x\<lparr> timer_armed := False \<rparr>"

definition subscription_unsubscribe :: "exchange \<Rightarrow> exchange" where
  "subscription_unsubscribe x = x\<lparr> world := unsubscribe (subscription x) (world x) \<rparr>"

text \<open>
  What happens to an exchange after its executor has run: a peer publishes a message
  on the bus, or the timer's deadline passes.
\<close>

datatype event = Reply msg | TimerFires

text \<open>The bus hands a message to a subscription that is open on the message's subject.\<close>

definition delivered :: "msg \<Rightarrow> exchange \<Rightarrow> bool" where
  "delivered m x = ((subscription x, subject m) \<in> set (subs (world x)))"

subsection \<open>api-gateway, routes/invoice.routes.ts, GET / (lines 62-85)\<close>

text \<open>
  \<open>publishMessage\<close> and \<open>subscribeToSubject\<close> of the gateway's nats module, for an
  initialised client (the routes are registered after \<open>connectNats\<close> has returned).
  \<open>subscribeToSubject\<close> consumes the subscription in a loop that decodes each message
  and calls the callback inside a try/catch that only logs.
\<close>

definition publishMessage :: "string \<Rightarrow> json \<Rightarrow> world \<Rightarrow> exn + world" where
  "publishMessage subj v w = nats_publish subj (jsonCodec_encode v) w"

definition subscribeToSubject_message ::
  "(json \<Rightarrow> exchange \<Rightarrow> exchange) \<Rightarrow> msg \<Rightarrow> exchange \<Rightarrow> exchange" where
  "subscribeToSubject_message callback m x =
     (case jsonCodec_decode (data m) of
        Inl e \<Rightarrow> x
      | Inr d \<Rightarrow> callback d x)"

definition gw_reply_subject :: "string \<Rightarrow> string" where
  "gw_reply_subject requestId = ''invoice.get.response.'' @ requestId"

text \<open>The reply callback: \<open>clearTimeout(timeout); subscription.unsubscribe(); resolve(msg)\<close>.\<close>

definition gw_callback :: "json \<Rightarrow> exchange \<Rightarrow> exchange" where
  "gw_callback d x = resolve d (subscription_unsubscribe (clearTimeout x))"

text \<open>
  The promise executor: arm the 5000 ms timer, subscribe to the reply subject, publish
  the request. An exception in the executor rejects the promise.
\<close>

definition gw_responsePromise :: "string \<Rightarrow> json \<Rightarrow> world \<Rightarrow> exchange" where
  "gw_responsePromise requestId payload w =
     (let sw = nats_subscribe (gw_reply_subject requestId) w
      in case publishMessage ''invoice.get.request'' payload (snd sw) of
           Inl e \<Rightarrow> \<lparr> world = snd sw, promise = Rejected e, timer_armed = True,
                      subscription = fst sw \<rparr>
         | Inr w' \<Rightarrow> \<lparr> world = w', promise = Pending, timer_armed = True,
                       subscription = fst sw \<rparr>)"

text \<open>The timer callback: \<open>reject(new Error('Request to invoice-svc timed out'))\<close>.\<close>

definition gw_timeout :: "exchange \<Rightarrow> exchange" where
  "gw_timeout x = reject (Error ''Request to invoice-svc timed out'') x"

fun gw_step :: "event \<Rightarrow> exchange \<Rightarrow> exchange" where
  "gw_step (Reply m) x =
     (if delivered m x then subscribeToSubject_message gw_callback m x else x)"
| "gw_step TimerFires x =
     (if timer_armed x then gw_timeout (x\<lparr> timer_armed := False \<rparr>) else x)"

subsection \<open>invoice-svc, handlers/sendInvoice.ts (lines 111-146)\<close>

text \<open>
  The exchange with the email service subscribes with a callback option. The callback
  is written with one parameter, \<open>msg\<close>. The client library (nats 2.x: package.json
  asks for \<open>^2.17.0\<close>) calls a subscription's callback as \<open>callback(err, msg)\<close>, with
  \<open>err\<close> null for a delivered message, so the callback's one parameter receives
  \<open>null\<close> and never the message. \<open>si_step\<close> takes what a delivery binds to the
  parameter as its first argument (\<open>None\<close> is \<open>null\<close>); \<open>error_first\<close> is the
  binding of the library. Reading \<open>msg.data\<close> of \<open>null\<close> throws inside the callback's
  try block.
\<close>

definition error_first :: "msg \<Rightarrow> msg option" where
  "error_first m = None"

definition si_reply_subject :: "string \<Rightarrow> string" where
  "si_reply_subject requestId = ''email.send.response.'' @ requestId"

definition si_callback :: "msg option \<Rightarrow> exchange \<Rightarrow> exchange" where
  "si_callback arg x =
     (let x' = subscription_unsubscribe (clearTimeout x)
      in case (case arg of
                 None \<Rightarrow> Inl (TypeError ''Cannot read properties of null (reading 'data')'')
               | Some m \<Rightarrow> jsonCodec_decode (data m)) of
           Inl e \<Rightarrow> reject e x'
         | Inr response \<Rightarrow>
             (case get_prop response ''error'' of
                Inl e \<Rightarrow> reject e x'
              | Inr err \<Rightarrow>
                  if truthy err then reject (Error (js_String err)) x'
                  else resolve response x'))"

definition si_responsePromise :: "string \<Rightarrow> json \<Rightarrow> world \<Rightarrow> exchange" where
  "si_responsePromise requestId emailData w =
     (let sw = nats_subscribe (si_reply_subject requestId) w
      in case nats_publish ''email.send.request''
                (jsonCodec_encode (set_field ''requestId'' (JStr requestId) emailData)) (snd sw) of
           Inl e \<Rightarrow> \<lparr> world = snd sw, promise = Rejected e, timer_armed = True,
                      subscription = fst sw \<rparr>
         | Inr w' \<Rightarrow> \<lparr> world = w', promise = Pending, timer_armed = True,
                       subscription = fst sw \<rparr>)"

definition si_timeout :: "exchange \<Rightarrow> exchange" where
  "si_timeout x = reject (Error ''Request to email service timed out'') x"

fun si_step :: "(msg \<Rightarrow> msg option) \<Rightarrow> event \<Rightarrow> exchange \<Rightarrow> exchange" where
  "si_step first_arg (Reply m) x =
     (if delivered m x then si_callback (first_arg m) x else x)"
| "si_step first_arg TimerFires x =
     (if timer_armed x then si_timeout (x\<lparr> timer_armed := False \<rparr>) else x)"

section \<open>Worker subscription loops\<close>

text \<open>
  Code that runs inside a worker changes the process state and either completes or
  throws; the state reached when it throws is kept, because a catch block continues
  from there (a message published before the throw stays published).
\<close>

type_synonym 'a js = "world \<Rightarrow> (exn + 'a) \<times> world"

definition js_return :: "'a \<Rightarrow> 'a js" where
  "js_return a w = (Inr a, w)"

definition js_eval :: "exn + 'a \<Rightarrow> 'a js" where
  "js_eval r w = (r, w)"

definition and_then :: "'a js \<Rightarrow> ('a \<Rightarrow> 'b js) \<Rightarrow> 'b js" where
  "and_then f g w = (case f w of (Inl e, w') \<Rightarrow> (Inl e, w') | (Inr a, w') \<Rightarrow> g a w')"

definition try_catch :: "'a js \<Rightarrow> (exn \<Rightarrow> 'a js) \<Rightarrow> 'a js" where
  "try_catch body handler w =
     (case body w of (Inl e, w') \<Rightarrow> handler e w' | (Inr a, w') \<Rightarrow> (Inr a, w'))"

text \<open>\<open>natsClient.publish(subject, jsonCodec.encode(value))\<close>.\<close>

definition publish_js :: "string \<Rightarrow> json \<Rightarrow> unit js" where
  "publish_js subj v w =
     (case nats_publish subj (jsonCodec_encode v) w of
        Inl e \<Rightarrow> (Inl e, w)
      | Inr w' \<Rightarrow> (Inr (), w'))"

text \<open>
  \<open>for await (const msg of sub) { ... }\<close> inside an async function that nobody awaits:
  the body handles the messages one after the other; if a body throws, the loop is over
  and the messages that follow are never handled. The result is the exception that
  ended the loop (if any), the messages left unhandled, and the final state.
\<close>

fun for_await :: "(msg \<Rightarrow> unit js) \<Rightarrow> msg list \<Rightarrow> world \<Rightarrow> exn option \<times> msg list \<times> world" where
  "for_await body [] w = (None, [], w)"
| "for_await body (m # ms) w =
     (case body m w of
        (Inl e, w') \<Rightarrow> (Some e, ms, w')
      | (Inr u, w') \<Rightarrow> for_await body ms w')"

text \<open>
  A business handler (handleSendEmail, handleGetInvoice, handleCreateInvoice,
  handleCreatePayment) is a parameter: it returns a result or throws.
\<close>

type_synonym handler = "json \<Rightarrow> exn + json"

text \<open>The error envelope \<open>{ error: error.message }\<close>.\<close>

definition error_envelope :: "exn \<Rightarrow> json" where
  "error_envelope e = JObj [(''error'', JStr (message e))]"

subsection \<open>email-svc, the email.send.request loop (lines 174-217)\<close>

definition email_send_try :: "handler \<Rightarrow> msg \<Rightarrow> unit js" where
  "email_send_try handleSendEmail m =
     and_then (js_eval (jsonCodec_decode (data m))) (\<lambda>d.
     and_then (js_eval (get_prop d ''to'')) (\<lambda>logged_to.
     and_then (js_eval (get_prop d ''subject'')) (\<lambda>logged_subject.
     and_then (js_eval (get_prop d ''template'')) (\<lambda>logged_template.
     and_then (js_eval (handleSendEmail d)) (\<lambda>result.
     and_then
       (if has_reply m then publish_js (reply_subject m) result
        else and_then (js_eval (get_prop d ''requestId'')) (\<lambda>requestId.
               if truthy requestId
               then publish_js (''email.send.response.'' @ js_String requestId) result
               else js_return ()))
       (\<lambda>u.
     and_then (js_eval (get_prop d ''to'')) (\<lambda>to.
     and_then (js_eval (get_prop result ''messageId'')) (\<lambda>messageId.
     and_then (js_eval (get_prop d ''template'')) (\<lambda>template.
       publish_js ''email.sent''
         (JObj [(''to'', to), (''messageId'', messageId), (''template'', template)]))))))))))"

text \<open>The catch block decodes the payload again, outside any try.\<close>

definition email_send_catch :: "msg \<Rightarrow> exn \<Rightarrow> unit js" where
  "email_send_catch m error =
     and_then (js_eval (jsonCodec_decode (data m))) (\<lambda>d.
       if has_reply m then publish_js (reply_subject m) (error_envelope error)
       else if truthy d then
         and_then (js_eval (get_prop d ''requestId'')) (\<lambda>requestId.
           if truthy requestId
           then publish_js (''email.send.response.'' @ js_String requestId) (error_envelope error)
           else js_return ())
       else js_return ())"

definition email_send_message :: "handler \<Rightarrow> msg \<Rightarrow> unit js" where
  "email_send_message handleSendEmail m =
     try_catch (email_send_try handleSendEmail m) (email_send_catch m)"

subsection \<open>invoice-svc, the invoice.get.request loop (lines 101-137)\<close>

definition invoice_get_try :: "handler \<Rightarrow> msg \<Rightarrow> unit js" where
  "invoice_get_try handleGetInvoice m =
     and_then (js_eval (jsonCodec_decode (data m))) (\<lambda>d.
     and_then (js_eval (handleGetInvoice d)) (\<lambda>result.
       if has_reply m then publish_js (reply_subject m) result
       else and_then (js_eval (get_prop d ''requestId'')) (\<lambda>requestId.
              if truthy requestId
              then publish_js (''invoice.get.response.'' @ js_String requestId) result
              else js_return ())))"

text \<open>Here the second decode, and the publish after it, sit in a try/catch of their own.\<close>

definition invoice_get_catch :: "msg \<Rightarrow> exn \<Rightarrow> unit js" where
  "invoice_get_catch m error =
     (if has_reply m then publish_js (reply_subject m) (error_envelope error)
      else try_catch
             (and_then (js_eval (jsonCodec_decode (data m))) (\<lambda>reqData.
                if truthy reqData then
                  and_then (js_eval (get_prop reqData ''requestId'')) (\<lambda>requestId.
                    if truthy requestId
                    then publish_js (''invoice.get.response.'' @ js_String requestId)
                           (error_envelope error)
                    else js_return ())
                else js_return ()))
             (\<lambda>decodeErr. js_return ()))"

definition invoice_get_message :: "handler \<Rightarrow> msg \<Rightarrow> unit js" where
  "invoice_get_message handleGetInvoice m =
     try_catch (invoice_get_try handleGetInvoice m) (invoice_get_catch m)"

subsection \<open>invoice-svc, the invoice.create loop (lines 65-94)\<close>




subsection \<open>payment-svc, the payment.create.request loop (lines 78-101)\<close>




section \<open>Graceful shutdown (setupGracefulShutdown)\<close>

text \<open>
  \<open>shutdown\<close> is an async function registered for SIGINT and SIGTERM. Up to its
  \<open>await natsClient.close()\<close> it runs without interruption: it calls \<open>unsubscribe\<close> on
  every handle of the module's \<open>subscriptions\<close> array and then calls \<open>close\<close>. A signal
  that arrives while the close is awaited starts the function again. After the await
  the process exits with code 0. The function keeps no record of having run.
\<close>

definition shutdown :: "nat list \<Rightarrow> world \<Rightarrow> world" where
  "shutdown subscriptions w = nats_close (fold unsubscribe subscriptions w)"

definition shutdown_exit :: "world \<Rightarrow> world" where
  "shutdown_exit w = w\<lparr> journal := journal w @ [Exited 0] \<rparr>"

text \<open>A service that has subscribed to its request subjects at start-up.\<close>

fun subscribe_all :: "string list \<Rightarrow> world \<Rightarrow> nat list \<times> world" where
  "subscribe_all [] w = ([], w)"
| "subscribe_all (subj # rest) w =
     (let sw = nats_subscribe subj w; more = subscribe_all rest (snd sw)
      in (fst sw # fst more, snd more))"

section \<open>invoice-svc, handlers/sendInvoice.ts: handleSendInvoice\<close>

text \<open>
  The database behind the Supabase client. A table is the list of its rows, an
  invoice row carrying its customer under \<open>customers\<close> as the select embeds it. A
  filter \<open>.eq(column, value)\<close> keeps the rows whose column holds the value (no
  row for a missing or null value);
  \<open>.single()\<close> answers with the row when exactly one is left and with an error
  otherwise. Each call answers \<open>{ data, error }\<close>: \<open>Inl\<close> is the error's message.
\<close>

definition eq_col :: "string \<Rightarrow> json \<Rightarrow> json \<Rightarrow> bool" where
  "eq_col col v row = (v \<noteq> JUndefined \<and> v \<noteq> JNull \<and> get_prop row col = Inr v)"

definition column :: "json \<Rightarrow> string \<Rightarrow> json" where
  "column row col = (case opt_prop row col of JUndefined \<Rightarrow> JNull | v \<Rightarrow> v)"

definition single :: "string option \<Rightarrow> json list \<Rightarrow> string + json" where
  "single err rows =
     (case err of
        Some m \<Rightarrow> Inl m
      | None \<Rightarrow>
          (case rows of
             [r] \<Rightarrow> Inr r
           | other \<Rightarrow> Inl ''JSON object requested, multiple (or no) rows returned''))"

definition invoice_match :: "json \<Rightarrow> json \<Rightarrow> json \<Rightarrow> bool" where
  "invoice_match invoice_id org_id row =
     (eq_col ''id'' invoice_id row \<and> eq_col ''organization_id'' org_id row)"

definition select_invoice :: "json \<Rightarrow> json \<Rightarrow> world \<Rightarrow> string + json" where
  "select_invoice invoice_id org_id w =
     single (db_error w) (filter (invoice_match invoice_id org_id) (invoices w))"

definition select_organization :: "json \<Rightarrow> world \<Rightarrow> string + json" where
  "select_organization org_id w =
     (case single (db_error w) (filter (eq_col ''id'' org_id) (organizations w)) of
        Inl m \<Rightarrow> Inl m
      | Inr row \<Rightarrow> Inr (JObj [(''name'', column row ''name''), (''email'', column row ''email'')]))"

definition mark_sent :: "string \<Rightarrow> json \<Rightarrow> json" where
  "mark_sent now row = set_field ''sent_at'' (JStr now) (set_field ''status'' (JStr ''sent'') row)"

text \<open>\<open>.update({ status: 'sent', sent_at }).eq('id', ...).eq('organization_id', ...)\<close>.\<close>

definition update_invoice_sent :: "string \<Rightarrow> json \<Rightarrow> json \<Rightarrow> world \<Rightarrow> string option \<times> world" where
  "update_invoice_sent now invoice_id org_id w =
     (case db_error w of
        Some m \<Rightarrow> (Some m, w)
      | None \<Rightarrow>
          (None,
           w\<lparr> invoices :=
                map (\<lambda>row. if invoice_match invoice_id org_id row
                            then mark_sent now row else row) (invoices w),
              journal := journal w @ [InvoiceUpdated (js_String invoice_id) ''sent''] \<rparr>))"

text \<open>
  What the handler reads from its surroundings: \<open>process.env.NODE_ENV\<close>, the clock,
  the request id it generates from clock and random number generator, and what a
  delivery binds to the reply callback's parameter (\<open>error_first\<close> with nats 2.x).
\<close>

record send_env =
  node_env :: "string option"
  now :: string
  new_request_id :: string
  callback_first_arg :: "msg \<Rightarrow> msg option"

definition production :: "string option \<Rightarrow> bool" where
  "production env = (env = Some ''production'')"

definition js_throw :: "exn \<Rightarrow> 'a js" where
  "js_throw e w = (Inl e, w)"

definition build_emailData :: "json \<Rightarrow> json \<Rightarrow> json \<Rightarrow> json \<Rightarrow> json" where
  "build_emailData invoice organization email_template pdfUrl =
     JObj
      [(''to'', opt_prop (opt_prop invoice ''customers'') ''email''),
       (''subject'',
          JStr (''Facture '' @ js_String (opt_prop invoice ''number'') @ '' de ''
                @ js_String (js_or (opt_prop organization ''name'') (JStr ''AutoInvoice'')))),
       (''template'', email_template),
       (''data'',
          JObj
           [(''invoice'',
               JObj
                [(''id'', opt_prop invoice ''id''),
                 (''number'', opt_prop invoice ''number''),
                 (''issue_date'', opt_prop invoice ''issue_date''),
                 (''due_date'', opt_prop invoice ''due_date''),
                 (''subtotal'', opt_prop invoice ''subtotal''),
                 (''tax_amount'', opt_prop invoice ''tax_amount''),
                 (''total_amount'', opt_prop invoice ''total_amount''),
                 (''currency'', opt_prop invoice ''currency''),
                 (''notes'', opt_prop invoice ''notes'')]),
            (''customer'', opt_prop invoice ''customers''),
            (''organization'',
               js_or organization
                 (JObj [(''name'', JStr ''AutoInvoice''),
                        (''email'', JStr ''contact@autoinvoice.com'')])),
            (''pdf_url'', pdfUrl)])]"

text \<open>
  Lines 22-108: everything up to the email exchange. The result is the fetched invoice
  and the email data. Property reads on the invoice come after the \<open>!invoice\<close> check,
  so they cannot throw.
\<close>

definition si_prepare :: "send_env \<Rightarrow> json \<Rightarrow> (json \<times> json) js" where
  "si_prepare env request =
     and_then (js_eval (get_prop request ''invoice_id'')) (\<lambda>invoice_id.
     and_then (js_eval (get_prop request ''organization_id'')) (\<lambda>org_id.
     and_then (js_eval (get_prop request ''pdf_url'')) (\<lambda>pdf_url.
     and_then (js_eval (get_prop request ''email_template'')) (\<lambda>requested_template.
     and_then
       (\<lambda>w. case select_invoice invoice_id org_id w of
               Inl m \<Rightarrow> (Inl (Error (''Failed to retrieve invoice: '' @ m)), w)
             | Inr invoice \<Rightarrow> (Inr invoice, w))
       (\<lambda>invoice.
     if \<not> truthy invoice
     then js_throw (Error (''Invoice '' @ js_String invoice_id
                     @ '' not found or does not belong to organization ''
                     @ js_String org_id))
     else if \<not> truthy (js_or pdf_url (opt_prop invoice ''pdf_url''))
     then js_throw (Error ''PDF URL is required to send the invoice'')
     else if \<not> truthy (opt_prop (opt_prop invoice ''customers'') ''email'')
     then js_throw (Error ''Customer email is required to send the invoice'')
     else
     and_then
       (\<lambda>w. case select_organization org_id w of
               Inl m \<Rightarrow> (Inl (Error (''Failed to retrieve organization: '' @ m)), w)
             | Inr organization \<Rightarrow> (Inr organization, w))
       (\<lambda>organization.
     and_then
       (\<lambda>w. case update_invoice_sent (now env) invoice_id org_id w of
               (Some m, w') \<Rightarrow> (Inl (Error (''Failed to update invoice status: '' @ m)), w')
             | (None, w') \<Rightarrow> (Inr (), w'))
       (\<lambda>u.
     js_return
       (invoice,
        build_emailData invoice organization
          (if requested_template = JUndefined then JStr ''default'' else requested_template)
          (js_or pdf_url (opt_prop invoice ''pdf_url''))))))))))"

text \<open>
  Lines 148-174: the handler awaits the promise. On a reply that resolves it, it
  returns the success object; in the catch block it returns a simulated success
  unless NODE_ENV is 'production', and rethrows otherwise.
\<close>

definition si_success :: "json \<Rightarrow> json \<Rightarrow> exn + json" where
  "si_success invoice response =
     (case get_prop response ''messageId'' of
        Inl e \<Rightarrow> Inl e
      | Inr messageId \<Rightarrow>
          Inr (JObj [(''success'', JBool True),
                     (''email'', opt_prop (opt_prop invoice ''customers'') ''email''),
                     (''message_id'', messageId)]))"

definition si_mock :: "send_env \<Rightarrow> json \<Rightarrow> json" where
  "si_mock env invoice =
     JObj [(''success'', JBool True),
           (''email'', opt_prop (opt_prop invoice ''customers'') ''email''),
           (''message_id'', JStr (''mock-'' @ new_request_id env)),
           (''mock'', JBool True)]"

definition si_catch :: "send_env \<Rightarrow> json \<Rightarrow> exn \<Rightarrow> exn + json" where
  "si_catch env invoice error =
     (if \<not> production (node_env env) then Inr (si_mock env invoice) else Inl error)"

text \<open>
  The whole handler, run against the events that follow the publish. \<open>None\<close> means the
  promise is still pending after these events: the handler has not returned yet.
\<close>

definition handleSendInvoice ::
  "send_env \<Rightarrow> json \<Rightarrow> event list \<Rightarrow> world \<Rightarrow> (exn + json) option \<times> world" where
  "handleSendInvoice env request events w =
     (case si_prepare env request w of
        (Inl e, w') \<Rightarrow> (Some (Inl e), w')
      | (Inr prepared, w') \<Rightarrow>
          (let x = fold (si_step (callback_first_arg env)) events
                     (si_responsePromise (new_request_id env) (snd prepared) w')
           in case promise x of
                Pending \<Rightarrow> (None, world x)
              | Resolved response \<Rightarrow>
                  (case si_success (fst prepared) response of
                     Inl e \<Rightarrow> (Some (si_catch env (fst prepared) e), world x)
                   | Inr result \<Rightarrow> (Some (Inr result), world x))
              | Rejected e \<Rightarrow> (Some (si_catch env (fst prepared) e), world x)))"

section \<open>api-gateway, routes/invoice.routes.ts: the HTTP handlers\<close>

record http_request =
  query :: json
  params :: json
  user :: json

record http_response =
  code :: nat
  body :: json

text \<open>
  What the route reads from its surroundings: NODE_ENV, the generated request id,
  \<open>parseInt(v)\<close> and \<open>Math.ceil(15 / parseInt(v))\<close> for a query value \<open>v\<close>, each as
  the number is serialised (NaN and Infinity become \<open>null\<close>), and the ten mock invoices, whose
  amounts and dates come from the random number generator and the clock.
\<close>

record gw_env =
  gw_node_env :: "string option"
  gw_request_id :: string
  parseInt :: "json \<Rightarrow> json"
  ceil_15_over_parseInt :: "json \<Rightarrow> json"
  mockInvoices :: json

definition with_default :: "json \<Rightarrow> json \<Rightarrow> json" where
  "with_default v dflt = (if v = JUndefined then dflt else v)"

definition bad_request :: http_response where
  "bad_request =
     \<lparr> code = 400,
       body = JObj [(''statusCode'', JNum ''400''), (''error'', JStr ''Bad Request''),
                    (''message'', JStr ''Organization ID is required'')] \<rparr>"

definition server_error :: "string \<Rightarrow> http_response" where
  "server_error msg =
     \<lparr> code = 500,
       body = JObj [(''statusCode'', JNum ''500''), (''error'', JStr ''Internal Server Error''),
                    (''message'', JStr msg)] \<rparr>"

definition gw_request_payload :: "gw_env \<Rightarrow> http_request \<Rightarrow> json \<Rightarrow> json" where
  "gw_request_payload env r orgId =
     JObj [(''requestId'', JStr (gw_request_id env)),
           (''orgId'', orgId),
           (''filters'', JObj [(''status'', opt_prop (query r) ''status'')]),
           (''pagination'',
              JObj [(''page'', parseInt env (with_default (opt_prop (query r) ''page'') (JNum ''1''))),
                    (''limit'', parseInt env (with_default (opt_prop (query r) ''limit'') (JNum ''10'')))])]"

definition gw_mock_page :: "gw_env \<Rightarrow> http_request \<Rightarrow> json" where
  "gw_mock_page env r =
     JObj [(''invoices'', mockInvoices env),
           (''total'', JNum ''15''),
           (''page'', parseInt env (with_default (opt_prop (query r) ''page'') (JNum ''1''))),
           (''limit'', parseInt env (with_default (opt_prop (query r) ''limit'') (JNum ''10''))),
           (''pages'',
              ceil_15_over_parseInt env (with_default (opt_prop (query r) ''limit'') (JNum ''10'')))]"

text \<open>
  GET / (lines 48-126). \<open>None\<close> means that the promise is still pending after the
  given events, so no response has been sent yet.
\<close>

definition gw_get_invoices ::
  "gw_env \<Rightarrow> http_request \<Rightarrow> event list \<Rightarrow> world \<Rightarrow> http_response option \<times> world" where
  "gw_get_invoices env r events w =
     (case get_prop (user r) ''org_id'' of
        Inl e \<Rightarrow> (Some (server_error ''An error occurred while fetching invoices''), w)
      | Inr orgId \<Rightarrow>
          if \<not> truthy orgId then (Some bad_request, w)
          else
            (let x = fold gw_step events
                       (gw_responsePromise (gw_request_id env) (gw_request_payload env r orgId) w)
             in case promise x of
                  Pending \<Rightarrow> (None, world x)
                | Resolved response \<Rightarrow> (Some \<lparr> code = 200, body = response \<rparr>, world x)
                | Rejected error \<Rightarrow>
                    if \<not> production (gw_node_env env)
                    then (Some \<lparr> code = 200, body = gw_mock_page env r \<rparr>, world x)
                    else (Some (server_error ''An error occurred while fetching invoices''),
                          world x)))"

text \<open>
  POST /:id/send (lines 332-362): the route publishes \<open>invoice.send\<close> without a reply
  subject and answers at once.
\<close>

definition gw_post_send :: "http_request \<Rightarrow> world \<Rightarrow> http_response \<times> world" where
  "gw_post_send r w =
     (case get_prop (params r) ''id'' of
        Inl e \<Rightarrow> (server_error ''An error occurred while sending invoice'', w)
      | Inr id' \<Rightarrow>
          (case get_prop (user r) ''org_id'' of
             Inl e \<Rightarrow> (server_error ''An error occurred while sending invoice'', w)
           | Inr orgId \<Rightarrow>
               if \<not> truthy orgId then (bad_request, w)
               else
                 (case publishMessage ''invoice.send''
                         (JObj [(''invoice_id'', id'), (''organization_id'', orgId)]) w of
                    Inl e \<Rightarrow> (server_error ''An error occurred while sending invoice'', w)
                  | Inr w' \<Rightarrow>
                      (\<lparr> code = 200,
                         body = JObj [(''message'',
                                  JStr (''Invoice '' @ js_String id'
                                        @ '' has been queued for sending''))] \<rparr>,
                       w'))))"

section \<open>Concrete inputs\<close>

text \<open>A gateway request payload, an email payload, and a reply message on a subject.\<close>

definition sample_payload :: json where
  "sample_payload =
     JObj [(''requestId'', JStr ''req_1''), (''orgId'', JStr ''org-1''),
           (''filters'', JObj [(''status'', JStr ''sent'')]),
           (''pagination'', JObj [(''page'', JNum ''1''), (''limit'', JNum ''10'')])]"

definition sample_emailData :: json where
  "sample_emailData =
     JObj [(''to'', JStr ''billing@acme.com''), (''subject'', JStr ''Facture INV-20230001 de Acme''),
           (''template'', JStr ''default'')]"

definition reply_msg :: "string \<Rightarrow> json \<Rightarrow> msg" where
  "reply_msg subj v = \<lparr> subject = subj, data = Encoded v, reply = None \<rparr>"

definition invoice_list :: json where
  "invoice_list = JObj [(''invoices'', JArr []), (''total'', JNum ''0'')]"

definition email_ok :: json where
  "email_ok = JObj [(''success'', JBool True), (''messageId'', JStr ''m-1'')]"


text \<open>
  Request messages with or without a reply subject, a message whose bytes are not
  JSON, and for each loop a request payload with a handler that answers it the way
  the service's handler does: handleGetInvoice returns a page of invoices;
  handleCreateInvoice reads \<open>data.customer_id\<close>, maps over \<open>data.items\<close> reading each
  item's quantity (a TypeError unless the payload is an object with an array of
  items) and returns the stored row; handleCreatePayment throws unless it finds the
  invoice and returns the checkout session.
\<close>

definition request_msg :: "string \<Rightarrow> json \<Rightarrow> string option \<Rightarrow> msg" where
  "request_msg subj v r = \<lparr> subject = subj, data = Encoded v, reply = r \<rparr>"

definition malformed_msg :: "string \<Rightarrow> string option \<Rightarrow> msg" where
  "malformed_msg subj r = \<lparr> subject = subj, data = Malformed ''{ not json'', reply = r \<rparr>"

definition list_invoices :: handler where
  "list_invoices d =
     (case get_prop d ''orgId'' of Inl e \<Rightarrow> Inl e | Inr orgId \<Rightarrow> Inr invoice_list)"

definition create_request :: json where
  "create_request =
     JObj [(''customer_id'', JStr ''c1''), (''organization_id'', JStr ''org-1''),
           (''items'', JArr [JObj [(''description'', JStr ''Design''),
                                   (''quantity'', JNum ''2''), (''unit_price'', JNum ''100'')]]),
           (''requestId'', JStr ''req_1'')]"





text \<open>A service that has subscribed to two of its subjects at start-up.\<close>

definition invoice_svc_started :: "nat list \<times> world" where
  "invoice_svc_started = subscribe_all [''invoice.create'', ''invoice.get.request''] just_connected"









definition healthy :: "world \<Rightarrow> bool" where
  "healthy w = (\<not> conn_closed w \<and> publish_errors w = [])"

text \<open>
  A database with one draft invoice of organisation \<open>org-1\<close>, the request to send
  it, the surroundings in production, and the HTTP requests that list invoices and
  that send the invoice.
\<close>

definition acme_invoice :: json where
  "acme_invoice =
     JObj [(''id'', JStr ''inv-1''), (''organization_id'', JStr ''org-1''),
           (''number'', JStr ''INV-20230001''), (''status'', JStr ''draft''),
           (''pdf_url'', JStr ''https://files.example/inv-1.pdf''),
           (''customers'', JObj [(''id'', JStr ''c1''), (''name'', JStr ''Acme''),
                                 (''email'', JStr ''billing@acme.com'')]),
           (''total_amount'', JNum ''240'')]"

definition studio_org :: json where
  "studio_org = JObj [(''id'', JStr ''org-1''), (''name'', JStr ''Studio''),
                      (''email'', JStr ''hello@studio.example'')]"

definition invoice_db :: world where
  "invoice_db = just_connected\<lparr> invoices := [acme_invoice], organizations := [studio_org] \<rparr>"

definition send_request :: json where
  "send_request = JObj [(''invoice_id'', JStr ''inv-1''), (''organization_id'', JStr ''org-1'')]"

definition prod_env :: send_env where
  "prod_env = \<lparr> node_env = Some ''production'', now = ''2024-01-01T00:00:00.000Z'',
                new_request_id = ''req_1'', callback_first_arg = error_first \<rparr>"

definition send_http_request :: http_request where
  "send_http_request = \<lparr> query = JObj [], params = JObj [(''id'', JStr ''inv-1'')],
                          user = JObj [(''org_id'', JStr ''org-1'')] \<rparr>"

definition prod_gw_env :: gw_env where
  "prod_gw_env = \<lparr> gw_node_env = Some ''production'', gw_request_id = ''req_1'',
                   parseInt = (\<lambda>v. case v of JNum n \<Rightarrow> JNum n | other \<Rightarrow> JNull),
                   ceil_15_over_parseInt = (\<lambda>v. if v = JNum ''10'' then JNum ''2'' else JNull),
                   mockInvoices = JArr [] \<rparr>"

text \<open>Two states of a process with the same database contents.\<close>

definition same_db :: "world \<Rightarrow> world \<Rightarrow> bool" where
  "same_db w w' = (invoices w' = invoices w \<and> organizations w' = organizations w \<and> db_error w' = db_error w)"

definition gw_list_request :: http_request where
  "gw_list_request = \<lparr> query = JObj [], params = JObj [], user = JObj [(''org_id'', JStr ''org-1'')] \<rparr>"

section \<open>Properties of the request/reply exchanges\<close>

lemma gw_frozen:
  "\<not> timer_armed x \<Longrightarrow> subscription x \<notin> fst ` set (subs (world x)) \<Longrightarrow> gw_step ev x = x"
  by (cases ev) (auto simp: delivered_def image_iff)

lemma gw_frozen_fold:
  "\<not> timer_armed x \<Longrightarrow> subscription x \<notin> fst ` set (subs (world x)) \<Longrightarrow> fold gw_step evs x = x"
  by (induction evs) (simp_all add: gw_frozen)



lemma gw_callback_props:
  "\<not> timer_armed (gw_callback d x)"
  "subscription x \<notin> fst ` set (subs (world (gw_callback d x)))"
  "subscription (gw_callback d x) = subscription x"
  "promise x = Pending \<Longrightarrow> promise (gw_callback d x) = Resolved d"
  "promise x \<noteq> Pending \<Longrightarrow> promise (gw_callback d x) = promise x"
  by (auto simp: gw_callback_def resolve_def subscription_unsubscribe_def clearTimeout_def
        unsubscribe_def)

lemma si_callback_props:
  "\<not> timer_armed (si_callback a x)"
  "subscription x \<notin> fst ` set (subs (world (si_callback a x)))"
  "subscription (si_callback a x) = subscription x"
  "promise (si_callback a x) \<noteq> Pending"
  "promise x \<noteq> Pending \<Longrightarrow> promise (si_callback a x) = promise x"
  by (auto simp: si_callback_def resolve_def reject_def subscription_unsubscribe_def
        clearTimeout_def unsubscribe_def Let_def split: option.splits sum.splits)

lemma gw_reply_runs_callback:
  "delivered m x \<Longrightarrow> data m = Encoded j \<Longrightarrow> gw_step (Reply m) x = gw_callback j x"
  by (simp add: subscribeToSubject_message_def)

lemma gw_callback_final: "fold gw_step evs (gw_callback j x) = gw_callback j x"
  by (rule gw_frozen_fold) (simp_all add: gw_callback_props)



text \<open>
  A settled promise stays as it is, whatever happens later and in whatever order
  the timer and the replies come.
\<close>

lemma gw_step_settled: "promise x \<noteq> Pending \<Longrightarrow> promise (gw_step ev x) = promise x"
  by (cases ev)
     (auto simp: subscribeToSubject_message_def gw_callback_props gw_timeout_def reject_def
        split: sum.splits)

lemma gw_settled_stays: "promise x \<noteq> Pending \<Longrightarrow> promise (fold gw_step evs x) = promise x"
  by (induction evs arbitrary: x) (simp_all add: gw_step_settled)

lemma si_step_settled:
  "promise x \<noteq> Pending \<Longrightarrow> promise (si_step first_arg ev x) = promise x"
  by (cases ev) (auto simp: si_callback_props si_timeout_def reject_def)

lemma si_settled_stays:
  "promise x \<noteq> Pending \<Longrightarrow> promise (fold (si_step first_arg) evs x) = promise x"
  by (induction evs arbitrary: x) (simp_all add: si_step_settled)

text \<open>
  With the library's binding handleSendInvoice's callback never sees the message:
  every delivered reply rejects the pending call with a TypeError.
\<close>

lemma si_reply_under_error_first:
  "delivered m x \<Longrightarrow> promise x = Pending \<Longrightarrow>
   promise (si_step error_first (Reply m) x) =
     Rejected (TypeError ''Cannot read properties of null (reading 'data')'')"
  by (simp add: si_callback_def error_first_def reject_def subscription_unsubscribe_def
        clearTimeout_def Let_def)

text \<open>The executors on a connection that accepts the request.\<close>

lemma gw_responsePromise_ok:
  assumes "\<not> conn_closed w" and "map_of (publish_errors w) ''invoice.get.request'' = None"
  shows "gw_responsePromise rid p w =
     \<lparr> world = w\<lparr> subs := subs w @ [(next_sid w, gw_reply_subject rid)],
                  next_sid := Suc (next_sid w),
                  journal := journal w @ [Subscribed (next_sid w) (gw_reply_subject rid),
                                          Published ''invoice.get.request'' (jsonCodec_encode p)] \<rparr>,
       promise = Pending, timer_armed = True, subscription = next_sid w \<rparr>"
  using assms
  by (simp add: gw_responsePromise_def publishMessage_def nats_publish_def nats_subscribe_def
        Let_def)

lemma si_responsePromise_ok:
  assumes "\<not> conn_closed w" and "map_of (publish_errors w) ''email.send.request'' = None"
  shows "si_responsePromise rid ed w =
     \<lparr> world = w\<lparr> subs := subs w @ [(next_sid w, si_reply_subject rid)],
                  next_sid := Suc (next_sid w),
                  journal := journal w @ [Subscribed (next_sid w) (si_reply_subject rid),
                                          Published ''email.send.request''
                                            (jsonCodec_encode
                                               (set_field ''requestId'' (JStr rid) ed))] \<rparr>,
       promise = Pending, timer_armed = True, subscription = next_sid w \<rparr>"
  using assms
  by (simp add: si_responsePromise_def nats_publish_def nats_subscribe_def Let_def)

text \<open>The timer callbacks reject and do nothing else: the subscription table is untouched.\<close>

lemma gw_timeout_keeps_subs: "subs (world (gw_step TimerFires x)) = subs (world x)"
  by (simp add: gw_timeout_def reject_def)

lemma si_timeout_keeps_subs: "subs (world (si_step first_arg TimerFires x)) = subs (world x)"
  by (simp add: si_timeout_def reject_def)

text \<open>
  C1, evaluated where the claim fails. The gateway issues its request on a fresh
  connection and no reply comes; the timer fires. The promise is rejected with the
  timeout error and the subscription on the reply subject (handle 0) is still open.
  The same happens in handleSendInvoice's exchange with the email service, whatever
  the callback convention.
\<close>

theorem C1_timeout_leaves_reply_subscription_open:
  "promise (gw_step TimerFires (gw_responsePromise ''req_1'' sample_payload just_connected))
     = Rejected (Error ''Request to invoice-svc timed out'')
   \<and> open_on (gw_reply_subject ''req_1'')
        (world (gw_step TimerFires (gw_responsePromise ''req_1'' sample_payload just_connected))) = [0]
   \<and> promise (si_step first_arg TimerFires
                (si_responsePromise ''req_1'' sample_emailData just_connected))
     = Rejected (Error ''Request to email service timed out'')
   \<and> open_on (si_reply_subject ''req_1'')
        (world (si_step first_arg TimerFires
                  (si_responsePromise ''req_1'' sample_emailData just_connected))) = [0]"
  by (simp add: gw_responsePromise_def si_responsePromise_def publishMessage_def
        nats_publish_def nats_subscribe_def just_connected_def gw_timeout_def si_timeout_def
        reject_def open_on_def Let_def)

text \<open>
  In the gateway the exchange works as intended: on a connection that accepts the
  request the executor subscribes and then publishes, and a reply delivered on the
  reply subject resolves the call with the decoded payload, whatever follows.
\<close>

lemma gw_subscribe_then_publish_reply_resolves:
  assumes "\<not> conn_closed w"
      and "map_of (publish_errors w) ''invoice.get.request'' = None"
      and "subject m = gw_reply_subject rid"
      and "data m = Encoded j"
  shows "journal (world (gw_responsePromise rid p w)) =
           journal w @ [Subscribed (next_sid w) (gw_reply_subject rid),
                        Published ''invoice.get.request'' (jsonCodec_encode p)]
       \<and> promise (fold gw_step (Reply m # evs) (gw_responsePromise rid p w)) = Resolved j"
proof -
  let ?g = "gw_responsePromise rid p w"
  note g = gw_responsePromise_ok [OF assms(1,2), of rid p]
  have dg: "delivered m ?g" using assms(3) by (simp add: g delivered_def)
  have pg: "promise ?g = Pending" by (simp add: g)
  have "promise (fold gw_step (Reply m # evs) ?g) = Resolved j"
    using gw_reply_runs_callback [OF dg assms(4)] gw_callback_final [of evs j ?g]
      gw_callback_props(4) [OF pg, where d = j] by simp
  then show ?thesis by (simp add: g)
qed

text \<open>
  C3, evaluated where the claim fails. handleSendInvoice's exchange subscribes to
  \<open>email.send.response.req_1\<close> and then publishes the request, in this order. The
  email service's success reply is delivered on the reply subject before the timer
  fires. The library calls the callback with \<open>null\<close> as first argument, the callback
  reads \<open>msg.data\<close> off it, and the call is rejected with the TypeError instead of being
  resolved with the reply's payload.
\<close>

theorem C3_delivered_reply_rejects_handleSendInvoice:
  "journal (world (si_responsePromise ''req_1'' sample_emailData just_connected))
     = [Subscribed 0 ''email.send.response.req_1'',
        Published ''email.send.request''
          (Encoded (set_field ''requestId'' (JStr ''req_1'') sample_emailData))]
   \<and> delivered (reply_msg ''email.send.response.req_1'' email_ok)
       (si_responsePromise ''req_1'' sample_emailData just_connected)
   \<and> promise (fold (si_step error_first)
                [Reply (reply_msg ''email.send.response.req_1'' email_ok), TimerFires]
                (si_responsePromise ''req_1'' sample_emailData just_connected))
     = Rejected (TypeError ''Cannot read properties of null (reading 'data')'')
   \<and> promise (fold (si_step error_first)
                [Reply (reply_msg ''email.send.response.req_1'' email_ok), TimerFires]
                (si_responsePromise ''req_1'' sample_emailData just_connected))
     \<noteq> Resolved email_ok"
  by (simp add: si_responsePromise_def nats_publish_def nats_subscribe_def just_connected_def
        delivered_def reply_msg_def si_reply_subject_def si_callback_def error_first_def
        subscription_unsubscribe_def clearTimeout_def unsubscribe_def reject_def
        jsonCodec_encode_def Let_def)



section \<open>Properties of the worker loops\<close>

lemma published_append [simp]: "published (xs @ ys) = published xs @ published ys"
  by (induction xs rule: published.induct) simp_all

lemma publish_healthy:
  "healthy w \<Longrightarrow>
   publish_js subj v w =
     (Inr (), w\<lparr> journal := journal w @ [Published subj (jsonCodec_encode v)] \<rparr>)"
  by (simp add: healthy_def publish_js_def nats_publish_def)

lemma healthy_journal [simp]: "healthy (w\<lparr> journal := js \<rparr>) = healthy w"
  by (simp add: healthy_def)

text \<open>
  The invoice.get.request loop survives every message: on a connection that accepts
  publishes, each iteration completes, so the loop consumes all its messages.
\<close>

lemma invoice_get_message_completes:
  "healthy w \<Longrightarrow> \<exists>w'. invoice_get_message h m w = (Inr (), w') \<and> healthy w'"
  by (auto simp: invoice_get_message_def invoice_get_try_def invoice_get_catch_def
        and_then_def js_eval_def js_return_def try_catch_def publish_healthy
      split: sum.splits)

lemma invoice_get_loop_never_ends:
  "healthy w \<Longrightarrow> \<exists>w'. for_await (invoice_get_message h) ms w = (None, [], w') \<and> healthy w'"
proof (induction ms arbitrary: w)
  case Nil
  then show ?case by simp
next
  case (Cons m ms)
  from invoice_get_message_completes [OF Cons.prems, of h m]
  obtain w1 where 1: "invoice_get_message h m w = (Inr (), w1)" and 2: "healthy w1"
    by blast
  from Cons.IH [OF 2] show ?case by (simp add: 1)
qed

lemma invoice_get_loop_survives_malformed:
  "fst (for_await (invoice_get_message list_invoices)
          [malformed_msg ''invoice.get.request'' (Some ''_INBOX.1''),
           request_msg ''invoice.get.request'' sample_payload (Some ''_INBOX.2'')]
          just_connected) = None
   \<and> published (journal (snd (snd (for_await (invoice_get_message list_invoices)
          [malformed_msg ''invoice.get.request'' (Some ''_INBOX.1''),
           request_msg ''invoice.get.request'' sample_payload (Some ''_INBOX.2'')]
          just_connected))))
     = [(''_INBOX.1'', Encoded (JObj [(''error'', JStr ''BAD_JSON'')])),
        (''_INBOX.2'', Encoded invoice_list)]"
  by (simp add: invoice_get_message_def invoice_get_try_def invoice_get_catch_def
        and_then_def js_eval_def js_return_def try_catch_def publish_js_def nats_publish_def
        malformed_msg_def request_msg_def has_reply_def reply_subject_def error_envelope_def
        just_connected_def list_invoices_def sample_payload_def jsonCodec_encode_def)

text \<open>
  C2, evaluated where the claim fails. The email.send.request loop receives a message
  whose payload is not JSON (it carries a reply subject) and then a well-formed
  request. The decode in the try block throws, the catch block decodes again and
  throws out of the iteration: the loop ends with that exception, no error envelope
  is published although a reply address is available, and the second message is never
  handled.
\<close>

theorem C2_malformed_payload_ends_email_loop:
  "for_await (email_send_message h)
     [malformed_msg ''email.send.request'' (Some ''_INBOX.1''),
      request_msg ''email.send.request'' create_request (Some ''_INBOX.2'')]
     just_connected
   = (Some (NatsError ''BAD_JSON''),
      [request_msg ''email.send.request'' create_request (Some ''_INBOX.2'')],
      just_connected)"
  by (simp add: email_send_message_def email_send_try_def email_send_catch_def and_then_def
        js_eval_def try_catch_def malformed_msg_def)







section \<open>Properties of the shutdown sequence\<close>

lemma fold_unsubscribe:
  "fold unsubscribe hs w =
     w\<lparr> subs := filter (\<lambda>s. fst s \<notin> set hs) (subs w),
        journal := journal w @ map Unsubscribed hs \<rparr>"
proof (induction hs arbitrary: w)
  case Nil
  then show ?case by simp
next
  case (Cons h hs)
  show ?case by (simp add: Cons.IH) (simp add: unsubscribe_def conj_commute)
qed

text \<open>
  C5, as the code has it. A second run of the shutdown function, started while the
  first awaits the close, calls \<open>unsubscribe\<close> again on every handle of the
  subscriptions array and calls \<open>close\<close> again on the connection: these calls are
  what it adds to the journal. It changes nothing else: after the first run no
  subscription is open and the connection is closed, and so it is after the second.
\<close>

theorem C5_second_shutdown_repeats_calls:
  "shutdown hs (shutdown hs w) =
     (shutdown hs w)\<lparr> journal :=
        journal (shutdown hs w) @ map Unsubscribed hs @ [ConnectionClosed] \<rparr>
   \<and> subs (shutdown hs w) = []
   \<and> conn_closed (shutdown hs w)"
  by (simp add: shutdown_def nats_close_def fold_unsubscribe)

text \<open>
  C5 as stated fails: invoice-svc with two subscriptions receives a second termination
  signal while the first shutdown awaits the close; every handle is unsubscribed twice
  and the connection is closed twice before the process exits.
\<close>

theorem C5_shutdown_twice_unsubscribes_and_closes_twice:
  "fst invoice_svc_started = [0, 1]
   \<and> journal (shutdown_exit
               (shutdown (fst invoice_svc_started)
                  (shutdown (fst invoice_svc_started) (snd invoice_svc_started))))
     = [Subscribed 0 ''invoice.create'', Subscribed 1 ''invoice.get.request'',
        Unsubscribed 0, Unsubscribed 1, ConnectionClosed,
        Unsubscribed 0, Unsubscribed 1, ConnectionClosed,
        Exited 0]"
  by (simp add: invoice_svc_started_def shutdown_def shutdown_exit_def nats_close_def
        unsubscribe_def nats_subscribe_def just_connected_def Let_def)

section \<open>Properties of handleSendInvoice and of the gateway routes\<close>

lemma si_step_db: "same_db (world x) (world (si_step fa ev x))"
  by (cases ev) (auto simp: same_db_def si_callback_def si_timeout_def reject_def resolve_def
      subscription_unsubscribe_def clearTimeout_def unsubscribe_def Let_def split: sum.splits option.splits)

lemma si_step_journal: "\<exists>rest. journal (world (si_step fa ev x)) = journal (world x) @ rest"
  by (cases ev) (auto simp: si_callback_def si_timeout_def reject_def resolve_def
      subscription_unsubscribe_def clearTimeout_def unsubscribe_def Let_def split: sum.splits option.splits)

lemma si_fold_db: "same_db (world x) (world (fold (si_step fa) evs x))"
proof (induction evs arbitrary: x)
  case Nil
  then show ?case by (simp add: same_db_def)
next
  case (Cons ev evs)
  from si_step_db [of x fa ev] Cons.IH [of "si_step fa ev x"]
  show ?case by (simp add: same_db_def)
qed

lemma si_fold_journal: "\<exists>rest. journal (world (fold (si_step fa) evs x)) = journal (world x) @ rest"
proof (induction evs arbitrary: x)
  case Nil
  then show ?case by simp
next
  case (Cons ev evs)
  from si_step_journal [of fa ev x] obtain r1 where 1: "journal (world (si_step fa ev x)) = journal (world x) @ r1"
    by blast
  from Cons.IH [of "si_step fa ev x"] obtain r2 where
    "journal (world (fold (si_step fa) evs (si_step fa ev x))) = journal (world (si_step fa ev x)) @ r2"
    by blast
  with 1 show ?case by simp
qed

lemma select_invoice_same_db: "same_db w w' \<Longrightarrow> select_invoice iid oid w' = select_invoice iid oid w"
  by (simp add: same_db_def select_invoice_def)

lemma mark_sent_status:
  "opt_prop (mark_sent t row) ''status'' = JStr ''sent''"
  "opt_prop (mark_sent t row) ''sent_at'' = JStr t"
  by (cases row; simp add: mark_sent_def opt_prop_def update_conv')+

lemma eq_col_set_field:
  "k \<noteq> col \<Longrightarrow> eq_col col v (set_field k x row) = eq_col col v row"
  by (cases row) (auto simp: eq_col_def update_conv')

lemma invoice_match_mark_sent:
  "invoice_match iid oid (mark_sent t row) = invoice_match iid oid row"
  by (simp add: invoice_match_def mark_sent_def eq_col_set_field)

lemma filter_map_mark:
  "filter (invoice_match iid oid) (map (\<lambda>row. if invoice_match iid oid row then mark_sent t row else row) rows)
   = map (mark_sent t) (filter (invoice_match iid oid) rows)"
  by (induction rows) (simp_all add: invoice_match_mark_sent)

lemma update_then_select:
  assumes "select_invoice iid oid w = Inr invoice"
      and "update_invoice_sent t iid oid w = (None, w1)"
  shows "select_invoice iid oid w1 = Inr (mark_sent t invoice)"
  using assms
  by (auto simp: select_invoice_def update_invoice_sent_def single_def filter_map_mark
       split: option.splits list.splits)

lemma update_keeps_connection:
  assumes "update_invoice_sent t iid oid w = (None, w1)"
  shows "journal w1 = journal w @ [InvoiceUpdated (js_String iid) ''sent'']"
    and "next_sid w1 = next_sid w" and "subs w1 = subs w"
    and "conn_closed w1 = conn_closed w" and "publish_errors w1 = publish_errors w"
  using assms by (auto simp: update_invoice_sent_def split: option.splits)

lemma si_prepare_success:
  assumes "si_prepare env request w = (Inr (invoice, ed), w1)"
  shows "\<exists>iid oid. get_prop request ''invoice_id'' = Inr iid
           \<and> get_prop request ''organization_id'' = Inr oid
           \<and> select_invoice iid oid w = Inr invoice
           \<and> update_invoice_sent (now env) iid oid w = (None, w1)"
  using assms
  by (auto simp: si_prepare_def and_then_def js_eval_def js_return_def js_throw_def
       split: sum.splits if_splits prod.splits option.splits)

lemma handleSendInvoice_rejected:
  assumes "si_prepare env request w = (Inr (invoice, ed), w1)"
      and "promise (fold (si_step (callback_first_arg env)) events
                     (si_responsePromise (new_request_id env) ed w1)) = Rejected e"
  shows "handleSendInvoice env request events w =
           (Some (if production (node_env env) then Inl e else Inr (si_mock env invoice)),
            world (fold (si_step (callback_first_arg env)) events
                     (si_responsePromise (new_request_id env) ed w1)))"
  using assms by (simp add: handleSendInvoice_def si_catch_def Let_def)

text \<open>
  C10. Suppose handleSendInvoice got through its database steps (both fetches
  succeeded, a PDF URL and a customer email are present, the update succeeded), on a
  connection that accepts the email request, in production, and the email exchange
  then fails (the promise is rejected: a timeout, an error envelope). Then the handler
  throws that error; the journal shows the update of the invoice to 'sent' first,
  then the subscription to the reply subject, then the publish of email.send.request;
  and reading the invoice again after the failure gives the row with status 'sent'
  and sent_at set: nothing rolls the status back.
\<close>

theorem C10_sent_status_survives_email_failure:
  assumes prep: "si_prepare env request w = (Inr (invoice, emailData), w1)"
      and ids: "get_prop request ''invoice_id'' = Inr iid" "get_prop request ''organization_id'' = Inr oid"
      and pub: "\<not> conn_closed w" "map_of (publish_errors w) ''email.send.request'' = None"
      and fail: "promise (fold (si_step (callback_first_arg env)) events
                     (si_responsePromise (new_request_id env) emailData w1)) = Rejected e"
      and prod: "production (node_env env)"
  shows "fst (handleSendInvoice env request events w) = Some (Inl e)
       \<and> (\<exists>rest. journal (snd (handleSendInvoice env request events w)) =
            journal w @ InvoiceUpdated (js_String iid) ''sent''
              # Subscribed (next_sid w) (si_reply_subject (new_request_id env))
              # Published ''email.send.request''
                  (jsonCodec_encode (set_field ''requestId'' (JStr (new_request_id env)) emailData))
              # rest)
       \<and> select_invoice iid oid (snd (handleSendInvoice env request events w))
            = Inr (mark_sent (now env) invoice)
       \<and> opt_prop (mark_sent (now env) invoice) ''status'' = JStr ''sent''
       \<and> opt_prop (mark_sent (now env) invoice) ''sent_at'' = JStr (now env)"
proof -
  let ?start = "si_responsePromise (new_request_id env) emailData w1"
  let ?final = "fold (si_step (callback_first_arg env)) events ?start"
  from si_prepare_success [OF prep] ids
  have sel: "select_invoice iid oid w = Inr invoice"
   and upd: "update_invoice_sent (now env) iid oid w = (None, w1)"
    by auto
  note sel1 = update_then_select [OF sel upd]
  note w1 = update_keeps_connection [OF upd]
  have ok1: "\<not> conn_closed w1" "map_of (publish_errors w1) ''email.send.request'' = None"
    using pub by (simp_all add: w1)
  note x0 = si_responsePromise_ok [OF ok1, of "new_request_id env" emailData]
  have res: "handleSendInvoice env request events w = (Some (Inl e), world ?final)"
    using handleSendInvoice_rejected [OF prep fail] prod by simp
  have j0: "journal (world ?start) = journal w @ [InvoiceUpdated (js_String iid) ''sent'',
             Subscribed (next_sid w) (si_reply_subject (new_request_id env)),
             Published ''email.send.request''
                  (jsonCodec_encode (set_field ''requestId'' (JStr (new_request_id env)) emailData))]"
    by (simp add: x0 w1)
  from si_fold_journal [of "callback_first_arg env" events ?start] obtain rest where
    r: "journal (world ?final) = journal (world ?start) @ rest" by blast
  have j: "\<exists>rest. journal (world ?final) = journal w @ InvoiceUpdated (js_String iid) ''sent''
              # Subscribed (next_sid w) (si_reply_subject (new_request_id env))
              # Published ''email.send.request''
                  (jsonCodec_encode (set_field ''requestId'' (JStr (new_request_id env)) emailData))
              # rest"
    by (rule exI [of _ rest]) (simp only: r j0 append.simps append_assoc)
  have "same_db w1 (world ?start)" by (simp add: x0 same_db_def)
  with si_fold_db [of ?start "callback_first_arg env" events]
  have "same_db w1 (world ?final)" by (simp add: same_db_def)
  then have s: "select_invoice iid oid (world ?final) = Inr (mark_sent (now env) invoice)"
    using sel1 by (simp add: select_invoice_same_db)
  show ?thesis using res j s by (simp add: mark_sent_status)
qed

lemma prepared_invoice_db:
  "si_prepare prod_env send_request invoice_db =
     (Inr (acme_invoice,
           build_emailData acme_invoice
             (JObj [(''name'', JStr ''Studio''), (''email'', JStr ''hello@studio.example'')])
             (JStr ''default'') (JStr ''https://files.example/inv-1.pdf'')),
      invoice_db\<lparr> invoices := [mark_sent ''2024-01-01T00:00:00.000Z'' acme_invoice],
                   journal := [InvoiceUpdated ''inv-1'' ''sent''] \<rparr>)"
  by (simp add: si_prepare_def and_then_def js_eval_def js_return_def js_throw_def
      send_request_def invoice_db_def just_connected_def select_invoice_def select_organization_def
      update_invoice_sent_def single_def invoice_match_def eq_col_def acme_invoice_def studio_org_def
      prod_env_def js_or_def opt_prop_def column_def)

lemma timed_out_invoice_db:
  "promise (fold (si_step (callback_first_arg prod_env)) [TimerFires]
      (si_responsePromise (new_request_id prod_env) ed
         (invoice_db\<lparr> invoices := rows, journal := js \<rparr>)))
   = Rejected (Error ''Request to email service timed out'')"
  by (simp add: si_responsePromise_def nats_publish_def nats_subscribe_def invoice_db_def
      just_connected_def si_timeout_def reject_def Let_def)

text \<open>
  The theorem at the database with one draft invoice, in production, when the email
  service never replies and the timer fires.
\<close>

theorem C10_sent_status_survives_email_failure_witness:
  "si_prepare prod_env send_request invoice_db =
     (Inr (acme_invoice,
           build_emailData acme_invoice
             (JObj [(''name'', JStr ''Studio''), (''email'', JStr ''hello@studio.example'')])
             (JStr ''default'') (JStr ''https://files.example/inv-1.pdf'')),
      invoice_db\<lparr> invoices := [mark_sent ''2024-01-01T00:00:00.000Z'' acme_invoice],
                   journal := [InvoiceUpdated ''inv-1'' ''sent''] \<rparr>)
   \<and> get_prop send_request ''invoice_id'' = Inr (JStr ''inv-1'')
   \<and> get_prop send_request ''organization_id'' = Inr (JStr ''org-1'')
   \<and> \<not> conn_closed invoice_db
   \<and> map_of (publish_errors invoice_db) ''email.send.request'' = None
   \<and> promise (fold (si_step (callback_first_arg prod_env)) [TimerFires]
        (si_responsePromise (new_request_id prod_env)
           (build_emailData acme_invoice
             (JObj [(''name'', JStr ''Studio''), (''email'', JStr ''hello@studio.example'')])
             (JStr ''default'') (JStr ''https://files.example/inv-1.pdf''))
           (invoice_db\<lparr> invoices := [mark_sent ''2024-01-01T00:00:00.000Z'' acme_invoice],
                   journal := [InvoiceUpdated ''inv-1'' ''sent''] \<rparr>)))
      = Rejected (Error ''Request to email service timed out'')
   \<and> production (node_env prod_env)
   \<and> fst (handleSendInvoice prod_env send_request [TimerFires] invoice_db)
      = Some (Inl (Error ''Request to email service timed out''))
   \<and> select_invoice (JStr ''inv-1'') (JStr ''org-1'')
        (snd (handleSendInvoice prod_env send_request [TimerFires] invoice_db))
      = Inr (mark_sent (now prod_env) acme_invoice)
   \<and> opt_prop (mark_sent (now prod_env) acme_invoice) ''status'' = JStr ''sent''"
proof -
  note h1 = prepared_invoice_db
  have h2: "get_prop send_request ''invoice_id'' = Inr (JStr ''inv-1'')"
   and h3: "get_prop send_request ''organization_id'' = Inr (JStr ''org-1'')"
    by (simp_all add: send_request_def)
  have h4: "\<not> conn_closed invoice_db"
   and h5: "map_of (publish_errors invoice_db) ''email.send.request'' = None"
    by (simp_all add: invoice_db_def just_connected_def)
  note h6 = timed_out_invoice_db
     [where ed = "build_emailData acme_invoice
             (JObj [(''name'', JStr ''Studio''), (''email'', JStr ''hello@studio.example'')])
             (JStr ''default'') (JStr ''https://files.example/inv-1.pdf'')"
        and rows = "[mark_sent ''2024-01-01T00:00:00.000Z'' acme_invoice]"
        and js = "[InvoiceUpdated ''inv-1'' ''sent'']"]
  have h7: "production (node_env prod_env)"
    by (simp add: production_def prod_env_def)
  show ?thesis
    using C10_sent_status_survives_email_failure [OF h1 h2 h3 h4 h5 h6 h7] h1 h2 h3 h4 h5 h6 h7 by blast
qed

text \<open>
  C9, as the code has it. When the gateway's exchange for GET /api/invoices fails,
  the HTTP response is the structured 500 error in production, which is not the mock
  page, and the mock page with status 200 otherwise. When handleSendInvoice's email
  exchange fails, the handler rethrows the error to its caller in production and
  returns the simulated success otherwise.
\<close>

theorem C9_mock_fallback_outside_production:
  assumes "get_prop (user r) ''org_id'' = Inr orgId" and "truthy orgId"
      and "promise (fold gw_step events
             (gw_responsePromise (gw_request_id genv) (gw_request_payload genv r orgId) w))
           = Rejected e"
      and "si_prepare env request w2 = (Inr (invoice, emailData), w1)"
      and "promise (fold (si_step (callback_first_arg env)) events2
             (si_responsePromise (new_request_id env) emailData w1)) = Rejected e2"
  shows "fst (gw_get_invoices genv r events w) =
           Some (if production (gw_node_env genv)
                 then server_error ''An error occurred while fetching invoices''
                 else \<lparr> code = 200, body = gw_mock_page genv r \<rparr>)
       \<and> code (server_error ''An error occurred while fetching invoices'') = 500
       \<and> body (server_error ''An error occurred while fetching invoices'') \<noteq> gw_mock_page genv r
       \<and> fst (handleSendInvoice env request events2 w2) =
           Some (if production (node_env env) then Inl e2 else Inr (si_mock env invoice))"
  using assms handleSendInvoice_rejected [OF assms(4,5)]
  by (simp add: gw_get_invoices_def Let_def server_error_def gw_mock_page_def)

text \<open>
  C9 as stated fails for the email exchange: in production its error does not reach
  an HTTP caller as a 5xx response. handleSendInvoice throws to the worker loop that
  called it (nothing but the email request is published), and the HTTP request that
  asked for the invoice to be sent, POST /:id/send, is answered 200 as soon as the
  message is queued.
\<close>

theorem C9_send_failure_is_no_http_error:
  "production (node_env prod_env)
   \<and> fst (handleSendInvoice prod_env send_request [TimerFires] invoice_db)
       = Some (Inl (Error ''Request to email service timed out''))
   \<and> published (journal (snd (handleSendInvoice prod_env send_request [TimerFires] invoice_db)))
       = [(''email.send.request'', Encoded (set_field ''requestId'' (JStr ''req_1'')
              (build_emailData acme_invoice
             (JObj [(''name'', JStr ''Studio''), (''email'', JStr ''hello@studio.example'')])
             (JStr ''default'') (JStr ''https://files.example/inv-1.pdf''))))]
   \<and> fst (gw_post_send send_http_request just_connected)
       = \<lparr> code = 200, body = JObj [(''message'', JStr ''Invoice inv-1 has been queued for sending'')] \<rparr>"
proof -
  have "handleSendInvoice prod_env send_request [TimerFires] invoice_db
     = (Some (Inl (Error ''Request to email service timed out'')),
        world (fold (si_step (callback_first_arg prod_env)) [TimerFires]
        (si_responsePromise (new_request_id prod_env)
           (build_emailData acme_invoice
             (JObj [(''name'', JStr ''Studio''), (''email'', JStr ''hello@studio.example'')])
             (JStr ''default'') (JStr ''https://files.example/inv-1.pdf''))
           (invoice_db\<lparr> invoices := [mark_sent ''2024-01-01T00:00:00.000Z'' acme_invoice],
                   journal := [InvoiceUpdated ''inv-1'' ''sent''] \<rparr>))))"
    using handleSendInvoice_rejected [OF prepared_invoice_db timed_out_invoice_db]
    by (simp add: production_def prod_env_def)
  then show ?thesis
    by (simp add: production_def prod_env_def gw_post_send_def send_http_request_def
        publishMessage_def nats_publish_def just_connected_def
        si_responsePromise_def nats_subscribe_def invoice_db_def si_timeout_def reject_def Let_def
        jsonCodec_encode_def)
qed

text \<open>
  The theorem at a gateway request whose exchange times out, in production and in
  development, and at handleSendInvoice timing out in production.
\<close>

theorem C9_mock_fallback_outside_production_witness:
  "get_prop (user gw_list_request) ''org_id'' = Inr (JStr ''org-1'')
   \<and> truthy (JStr ''org-1'')
   \<and> promise (fold gw_step [TimerFires]
             (gw_responsePromise (gw_request_id prod_gw_env)
                (gw_request_payload prod_gw_env gw_list_request (JStr ''org-1'')) just_connected))
           = Rejected (Error ''Request to invoice-svc timed out'')
   \<and> si_prepare prod_env send_request invoice_db =
     (Inr (acme_invoice,
           build_emailData acme_invoice
             (JObj [(''name'', JStr ''Studio''), (''email'', JStr ''hello@studio.example'')])
             (JStr ''default'') (JStr ''https://files.example/inv-1.pdf'')),
      invoice_db\<lparr> invoices := [mark_sent ''2024-01-01T00:00:00.000Z'' acme_invoice],
                   journal := [InvoiceUpdated ''inv-1'' ''sent''] \<rparr>)
   \<and> promise (fold (si_step (callback_first_arg prod_env)) [TimerFires]
        (si_responsePromise (new_request_id prod_env)
           (build_emailData acme_invoice
             (JObj [(''name'', JStr ''Studio''), (''email'', JStr ''hello@studio.example'')])
             (JStr ''default'') (JStr ''https://files.example/inv-1.pdf''))
           (invoice_db\<lparr> invoices := [mark_sent ''2024-01-01T00:00:00.000Z'' acme_invoice],
                   journal := [InvoiceUpdated ''inv-1'' ''sent''] \<rparr>)))
      = Rejected (Error ''Request to email service timed out'')
   \<and> fst (gw_get_invoices prod_gw_env gw_list_request [TimerFires] just_connected)
       = Some (server_error ''An error occurred while fetching invoices'')
   \<and> fst (gw_get_invoices (prod_gw_env\<lparr> gw_node_env := Some ''development'' \<rparr>)
             gw_list_request [TimerFires] just_connected)
       = Some \<lparr> code = 200,
                body = gw_mock_page (prod_gw_env\<lparr> gw_node_env := Some ''development'' \<rparr>)
                         gw_list_request \<rparr>
   \<and> fst (handleSendInvoice prod_env send_request [TimerFires] invoice_db)
       = Some (Inl (Error ''Request to email service timed out''))"
proof -
  have h1: "get_prop (user gw_list_request) ''org_id'' = Inr (JStr ''org-1'')"
    by (simp add: gw_list_request_def)
  have h2: "truthy (JStr ''org-1'')" by simp
  have h3: "promise (fold gw_step [TimerFires]
             (gw_responsePromise (gw_request_id genv)
                (gw_request_payload genv gw_list_request (JStr ''org-1'')) just_connected))
           = Rejected (Error ''Request to invoice-svc timed out'')" for genv
    by (simp add: gw_responsePromise_def publishMessage_def nats_publish_def nats_subscribe_def
        just_connected_def gw_timeout_def reject_def Let_def)
  note h4 = prepared_invoice_db
  note h5 = timed_out_invoice_db
     [where ed = "build_emailData acme_invoice
             (JObj [(''name'', JStr ''Studio''), (''email'', JStr ''hello@studio.example'')])
             (JStr ''default'') (JStr ''https://files.example/inv-1.pdf'')"
        and rows = "[mark_sent ''2024-01-01T00:00:00.000Z'' acme_invoice]"
        and js = "[InvoiceUpdated ''inv-1'' ''sent'']"]
  have p: "production (gw_node_env prod_gw_env)" "production (node_env prod_env)"
     "\<not> production (gw_node_env (prod_gw_env\<lparr> gw_node_env := Some ''development'' \<rparr>))"
    by (simp_all add: production_def prod_gw_env_def prod_env_def)
  show ?thesis
    using C9_mock_fallback_outside_production [OF h1 h2 h3 h4 h5, of prod_gw_env]
      C9_mock_fallback_outside_production [OF h1 h2 h3 h4 h5, of "prod_gw_env\<lparr> gw_node_env := Some ''development'' \<rparr>"]
      h1 h2 h3 [of prod_gw_env] h4 h5 p
    by simp
qed

end
